theory Spec2Isabelle
  imports Complex_Main
begin

section \<open>OTDR simulator: the physics, acquisition and analysis core of index.tsx\<close>

text \<open>
  The embedding follows \<^verbatim>\<open>src/index.tsx\<close>. JavaScript numbers are modelled as exact
  reals: rounding, overflow to an infinity and the narrowing of the sample buffer to
  32-bit floats are outside the model. Where the source relies on a non-finite value
  (\<^verbatim>\<open>Math.log10\<close> of a non-positive number, the falsy test \<^verbatim>\<open>x || y\<close>) the outcome of
  the JavaScript expression is written out as a branch. \<^verbatim>\<open>Math.random()\<close> is an explicit
  argument: a function from the sample index to the number drawn in that iteration.
\<close>

subsection \<open>Types and constants (lines 34--58)\<close>

datatype EventType = Connector | Splice | Bend | End | Cut | Start | Degradation

text \<open>The fields \<^verbatim>\<open>id\<close> and \<^verbatim>\<open>range\<close> of the source are named \<open>event_id\<close> and
  \<open>range_km\<close>, the plain names being constants of HOL.\<close>

record FiberEvent =
  event_id :: string
  type :: EventType
  distance :: real
  loss :: real
  reflectance :: real

record SimulationConfig =
  range_km :: real
  pulseWidth :: real
  wavelength :: nat
  ior :: real
  averaging :: real
  noiseFloor :: real
  autoMode :: bool
  testDuration :: real

record TracePoint =
  x :: real
  y :: real

text \<open>\<^verbatim>\<open>xs.find(p)\<close>: the first element satisfying \<open>p\<close> is \<^const>\<open>List.find\<close>.
  \<^verbatim>\<open>[...xs].sort((a, b) => a.distance - b.distance)\<close> is a stable ascending sort on
  the distance, which is \<^const>\<open>sort_key\<close>.\<close>

definition isEnd :: "FiberEvent \<Rightarrow> bool" where
  "isEnd e = (type e = End)"

subsection \<open>Auto mode (lines 198--224)\<close>

definition availableRanges :: "real list" where
  "availableRanges = [5, 10, 20, 40, 80, 160, 300]"

definition autoMaxDist :: "FiberEvent list \<Rightarrow> real option \<Rightarrow> real" where
  "autoMaxDist events activeCut =
     (let maxDist = (case List.find isEnd events of
                       Some lastEvent \<Rightarrow> distance lastEvent
                     | None \<Rightarrow> 0)
      in case activeCut of
           Some cutDistance \<Rightarrow> if cutDistance < maxDist then cutDistance else maxDist
         | None \<Rightarrow> maxDist)"

definition bestRange :: "real \<Rightarrow> real" where
  "bestRange maxDist =
     (case List.find (\<lambda>r. r > maxDist * 1.2) availableRanges of
        Some r \<Rightarrow> r
      | None \<Rightarrow> 300)"

definition bestPulse :: "real \<Rightarrow> real" where
  "bestPulse r =
     (if r \<le> 5 then 10
      else if r \<le> 20 then 100
      else if r \<le> 40 then 500
      else if r \<le> 80 then 1000
      else if r \<le> 160 then 10000
      else 20000)"

definition autoSelect :: "FiberEvent list \<Rightarrow> real option \<Rightarrow> real \<times> real" where
  "autoSelect events activeCut =
     (let r = bestRange (autoMaxDist events activeCut) in (r, bestPulse r))"

definition autoModeEffect ::
  "SimulationConfig \<Rightarrow> FiberEvent list \<Rightarrow> real option \<Rightarrow> SimulationConfig" where
  "autoModeEffect config events activeCut =
     (if autoMode config then
        (let (r, p) = autoSelect events activeCut in
         if range_km config \<noteq> r \<or> pulseWidth config \<noteq> p
         then config\<lparr>range_km := r, pulseWidth := p\<rparr>
         else config)
      else config)"

subsection \<open>Physics engine: constants of one shot (lines 228--249)\<close>

definition calculateAttenuation :: "nat \<Rightarrow> real" where
  "calculateAttenuation w = (if w = 1310 then 0.35 else 0.20)"

definition numPoints :: nat where
  "numPoints = 4000"

definition stepSize :: "SimulationConfig \<Rightarrow> real" where
  "stepSize config = range_km config / real numPoints"

definition speedOfLightKmS :: real where
  "speedOfLightKmS = 299792.458"

text \<open>\<^verbatim>\<open>config.pulseWidth * 1e-9\<close>.\<close>

definition pulseWidthSeconds :: "SimulationConfig \<Rightarrow> real" where
  "pulseWidthSeconds config = pulseWidth config * (1 / 10 ^ 9)"

definition pulseLengthKm :: "SimulationConfig \<Rightarrow> real" where
  "pulseLengthKm config = (speedOfLightKmS * pulseWidthSeconds config) / ior config"

definition eventDeadZone :: "SimulationConfig \<Rightarrow> real" where
  "eventDeadZone config = pulseLengthKm config * 1.5"

definition baseNoiseAmp :: real where
  "baseNoiseAmp = 5.0"

text \<open>\<^verbatim>\<open>Math.log10(config.pulseWidth) / 2\<close> for a positive pulse width.\<close>

definition noiseReductionFactor :: "real \<Rightarrow> real" where
  "noiseReductionFactor pw = log 10 pw / 2"

text \<open>
  \<^verbatim>\<open>Math.max(0.5, baseNoiseAmp / (noiseReductionFactor || 1))\<close>. For a positive pulse
  width the factor is a finite number and \<^verbatim>\<open>|| 1\<close> replaces it only when it is zero.
  At pulse width 0 the logarithm is \<^verbatim>\<open>-Infinity\<close>, the quotient is \<^verbatim>\<open>-0\<close> and the
  maximum is 0.5; below 0 the logarithm is \<^verbatim>\<open>NaN\<close>, which \<^verbatim>\<open>|| 1\<close> replaces by 1.
\<close>

definition noiseAmplitude :: "real \<Rightarrow> real" where
  "noiseAmplitude pw =
     (if pw > 0 then
        max 0.5 (baseNoiseAmp /
                   (if noiseReductionFactor pw = 0 then 1 else noiseReductionFactor pw))
      else if pw = 0 then 0.5
      else max 0.5 (baseNoiseAmp / 1))"

subsection \<open>Physics engine: the effective topology of a shot (lines 252--265)\<close>

definition cutPoint :: "real \<Rightarrow> FiberEvent" where
  "cutPoint cutDistance =
     \<lparr>event_id = ''cut-point'', type = Cut, distance = cutDistance,
      loss = 50, reflectance = -14\<rparr>"

definition sortedEvents :: "FiberEvent list \<Rightarrow> real option \<Rightarrow> FiberEvent list" where
  "sortedEvents events activeCut =
     (let sorted = sort_key distance events
      in case activeCut of
           None \<Rightarrow> sorted
         | Some cutDistance \<Rightarrow>
             filter (\<lambda>e. distance e < cutDistance) sorted @ [cutPoint cutDistance])"

text \<open>\<^verbatim>\<open>sortedEvents.find(e => e.type === 'end')?.distance || config.range\<close>: the range
  is taken when there is no end event and also when its distance is the falsy 0.\<close>

definition effectiveEndDistance ::
  "SimulationConfig \<Rightarrow> FiberEvent list \<Rightarrow> real option \<Rightarrow> real" where
  "effectiveEndDistance config events activeCut =
     (case activeCut of
        Some cutDistance \<Rightarrow> cutDistance
      | None \<Rightarrow>
          (case List.find isEnd (sort_key distance events) of
             Some e \<Rightarrow> if distance e = 0 then range_km config else distance e
           | None \<Rightarrow> range_km config))"

subsection \<open>Physics engine: one iteration of the sample loop (lines 274--322)\<close>

record ShotState =
  currentPower :: real
  eventIndex :: nat
  deadZoneActiveUntil :: real
  powerAtSaturation :: real

definition initialShotState :: ShotState where
  "initialShotState =
     \<lparr>currentPower = 0, eventIndex = 0, deadZoneActiveUntil = -1, powerAtSaturation = 0\<rparr>"

definition sampleDistance :: "SimulationConfig \<Rightarrow> nat \<Rightarrow> real" where
  "sampleDistance config i = real i * stepSize config"

text \<open>Lines 277--295: the event under the forward pointer is consumed when the sample
  has reached its distance. \<^verbatim>\<open>sortedEvents[eventIndex]\<close> is \<^verbatim>\<open>undefined\<close> past the end
  of the list.\<close>

record EventStep =
  es_state :: ShotState
  es_idealPower :: real
  es_reflectionAdd :: real
  es_justTriggeredEvent :: bool

definition eventStep ::
  "SimulationConfig \<Rightarrow> FiberEvent list \<Rightarrow> real \<Rightarrow> ShotState \<Rightarrow> EventStep" where
  "eventStep config evs d st =
     (let idealPower = currentPower st - calculateAttenuation (wavelength config) * d
      in if eventIndex st < length evs \<and> d \<ge> distance (evs ! eventIndex st) then
           (let activeEvent = evs ! eventIndex st;
                st1 = st\<lparr>currentPower := currentPower st - loss activeEvent\<rparr>;
                idealPower1 = idealPower - loss activeEvent
            in if reflectance activeEvent > -65 then
                 (let spikeHeight = reflectance activeEvent + 75
                  in \<lparr>es_state = st1\<lparr>deadZoneActiveUntil :=
                                         distance activeEvent + eventDeadZone config,
                                       powerAtSaturation := idealPower1 + spikeHeight,
                                       eventIndex := eventIndex st + 1\<rparr>,
                      es_idealPower = idealPower1,
                      es_reflectionAdd = spikeHeight,
                      es_justTriggeredEvent = True\<rparr>)
               else
                 \<lparr>es_state = st1\<lparr>eventIndex := eventIndex st + 1\<rparr>,
                  es_idealPower = idealPower1,
                  es_reflectionAdd = 0,
                  es_justTriggeredEvent = True\<rparr>)
         else
           \<lparr>es_state = st, es_idealPower = idealPower, es_reflectionAdd = 0,
            es_justTriggeredEvent = False\<rparr>)"

text \<open>Lines 299--306: the ring-down inside the dead zone. The divisor is
  \<^verbatim>\<open>(eventDeadZone || 0.001)\<close>.\<close>

definition deadZoneDivisor :: "SimulationConfig \<Rightarrow> real" where
  "deadZoneDivisor config =
     (if eventDeadZone config = 0 then 0.001 else eventDeadZone config)"

definition ringDown ::
  "SimulationConfig \<Rightarrow> real \<Rightarrow> real \<Rightarrow> ShotState \<Rightarrow> real \<times> ShotState" where
  "ringDown config d idealPower st =
     (if d < deadZoneActiveUntil st then
        (let remainingDist = deadZoneActiveUntil st - d;
             ratio = remainingDist / deadZoneDivisor config;
             decay = ratio ^ 4 * (powerAtSaturation st - idealPower)
         in (idealPower + decay, st))
      else (idealPower, st\<lparr>deadZoneActiveUntil := -1\<rparr>))"

text \<open>Lines 308--310 and 312--314.\<close>

definition addReflection :: "bool \<Rightarrow> real \<Rightarrow> real \<Rightarrow> real" where
  "addReflection justTriggeredEvent reflectionAdd traceValue =
     (if justTriggeredEvent then traceValue + reflectionAdd else traceValue)"

definition pastTerminal :: "real \<Rightarrow> real \<Rightarrow> bool" where
  "pastTerminal d endDistance = (d > endDistance)"

text \<open>Lines 317--321: the noise of the shot; \<open>rnd\<close> is the value of \<^verbatim>\<open>Math.random()\<close>.\<close>

definition addNoise :: "SimulationConfig \<Rightarrow> real \<Rightarrow> real \<Rightarrow> real" where
  "addNoise config rnd traceValue =
     (let noise = (rnd - 0.5) * noiseAmplitude (pulseWidth config);
          finalPower = traceValue + noise
      in if finalPower < noiseFloor config then noiseFloor config + noise else finalPower)"

record Sample =
  ringDownValue :: real
  peakValue :: real
  traceValue :: real
  finalPower :: real
  nextState :: ShotState

definition shotSample ::
  "SimulationConfig \<Rightarrow> FiberEvent list \<Rightarrow> real \<Rightarrow> real \<Rightarrow> nat \<Rightarrow> ShotState \<Rightarrow> Sample" where
  "shotSample config evs endDistance rnd i st =
     (let d = sampleDistance config i;
          es = eventStep config evs d st;
          rd = ringDown config d (es_idealPower es) (es_state es);
          v1 = fst rd;
          v2 = addReflection (es_justTriggeredEvent es) (es_reflectionAdd es) v1;
          v3 = (if pastTerminal d endDistance then noiseFloor config else v2)
      in \<lparr>ringDownValue = v1, peakValue = v2, traceValue = v3,
          finalPower = addNoise config rnd v3, nextState = snd rd\<rparr>)"

subsection \<open>Physics engine: the sample loop and the shot (lines 233--325)\<close>

function shotLoop ::
  "SimulationConfig \<Rightarrow> FiberEvent list \<Rightarrow> real \<Rightarrow> (nat \<Rightarrow> real) \<Rightarrow> nat \<Rightarrow> ShotState
     \<Rightarrow> real list" where
  "shotLoop config evs endDistance rng i st =
     (if i < numPoints then
        (let s = shotSample config evs endDistance (rng i) i st
         in finalPower s # shotLoop config evs endDistance rng (i + 1) (nextState s))
      else [])"
  by pat_completeness auto
termination
  by (relation "measure (\<lambda>(config, evs, endDistance, rng, i, st). numPoints - i)") auto

text \<open>
  The source writes each sample into a \<^verbatim>\<open>Float32Array\<close> and returns that buffer. The
  model returns the samples as the real numbers computed before that store: a value
  outside the range of a 32-bit float, which the buffer holds as an infinity, and a
  \<^verbatim>\<open>NaN\<close> have no counterpart here, so no statement of this theory is about the
  finiteness of the stored samples.
\<close>

definition calculateSingleTrace ::
  "SimulationConfig \<Rightarrow> FiberEvent list \<Rightarrow> real option \<Rightarrow> (nat \<Rightarrow> real) \<Rightarrow> real list" where
  "calculateSingleTrace config events activeCut rng =
     shotLoop config (sortedEvents events activeCut)
       (effectiveEndDistance config events activeCut) rng 0 initialShotState"

subsection \<open>Ground-truth analysis (lines 483--514)\<close>

definition analyzerCut :: "real \<Rightarrow> FiberEvent" where
  "analyzerCut cutDistance =
     \<lparr>event_id = ''cut'', type = Cut, distance = cutDistance, loss = 0, reflectance = -14\<rparr>"

definition actualEvents :: "FiberEvent list \<Rightarrow> real option \<Rightarrow> FiberEvent list" where
  "actualEvents events activeCut =
     sort_key distance
       (case activeCut of
          None \<Rightarrow> events
        | Some cutDistance \<Rightarrow>
            filter (\<lambda>e. distance e < cutDistance) events @ [analyzerCut cutDistance])"

text \<open>
  A row of the table. The source formats \<open>location\<close> and \<open>cumLoss\<close> with \<^verbatim>\<open>toFixed\<close>;
  the model keeps the numbers. \<open>shownReflectance\<close> is \<open>None\<close> for the text \<^verbatim>\<open>'---'\<close> and
  \<open>shownLoss\<close> is \<open>None\<close> for the text \<^verbatim>\<open>'> 50.0'\<close>.
\<close>

record AnalysisRecord =
  no :: nat
  rec_type :: EventType
  location :: real
  shownReflectance :: "real option"
  shownLoss :: "real option"
  cumLoss :: real

function analyzeLoop :: "nat \<Rightarrow> FiberEvent list \<Rightarrow> nat \<Rightarrow> real \<Rightarrow> AnalysisRecord list" where
  "analyzeLoop w evs i currentLossTotal =
     (if i < length evs then
        (let e = evs ! i
         in if type e = Start then analyzeLoop w evs (i + 1) currentLossTotal
            else
              (let total1 = currentLossTotal + loss e;
                   prevDist = (if i = 0 then 0 else distance (evs ! (i - 1)));
                   sectionLen = distance e - prevDist;
                   sectionLoss = sectionLen * calculateAttenuation w;
                   total2 = total1 + sectionLoss
               in \<lparr>no = i, rec_type = type e, location = distance e,
                   shownReflectance =
                     (if reflectance e > -60 then Some (reflectance e) else None),
                   shownLoss = (if type e = Cut then None else Some (loss e)),
                   cumLoss = total2\<rparr>
                  # analyzeLoop w evs (i + 1) total2))
      else [])"
  by pat_completeness auto
termination
  by (relation "measure (\<lambda>(w, evs, i, currentLossTotal). length evs - i)") auto

definition analyzeTrace ::
  "SimulationConfig \<Rightarrow> FiberEvent list \<Rightarrow> real option \<Rightarrow> AnalysisRecord list" where
  "analyzeTrace config events activeCut =
     analyzeLoop (wavelength config) (actualEvents events activeCut) 0 0"

subsection \<open>Acquisition and display (lines 329--336, 365--379, 456--480)\<close>

text \<open>
  The part of the component state that the acquisition and the display read and write.
  The animated signals, the cursor and the view window are presentation only and are left
  out. Each state update of the source is applied at once; the scheduling of updates by
  the rendering library is not modelled.
\<close>

record AppState =
  isSimulating :: bool
  traceData :: "TracePoint list"
  detectedEvents :: "AnalysisRecord list"
  elapsedTime :: real
  accumulatedY :: "real list"
  sampleCount :: nat

definition startSimulation :: "AppState \<Rightarrow> AppState" where
  "startSimulation st =
     st\<lparr>isSimulating := True, sampleCount := 0, accumulatedY := [], elapsedTime := 0\<rparr>"

text \<open>Lines 365--379: one shot is added into the accumulator.
  \<^verbatim>\<open>prev.map((val, i) => val + newRawTrace[i])\<close> keeps the length of \<open>prev\<close>; every shot
  has \<open>numPoints\<close> samples, so the index is in range.\<close>

definition accumulate :: "real list \<Rightarrow> real list \<Rightarrow> real list" where
  "accumulate prev newRawTrace =
     (if length prev = 0 then newRawTrace
      else map (\<lambda>i. prev ! i + newRawTrace ! i) [0..<length prev])"

definition acquire :: "real list \<Rightarrow> AppState \<Rightarrow> AppState" where
  "acquire newRawTrace st =
     st\<lparr>accumulatedY := accumulate (accumulatedY st) newRawTrace,
        sampleCount := sampleCount st + 1\<rparr>"

text \<open>Lines 456--480: the displayed trace.\<close>

definition tracePoints :: "real \<Rightarrow> nat \<Rightarrow> (nat \<Rightarrow> real) \<Rightarrow> TracePoint list" where
  "tracePoints rangeKm n yAt =
     map (\<lambda>i. \<lparr>x = real i * (rangeKm / real n), y = yAt i\<rparr>) [0..<n]"

definition displayEffect ::
  "SimulationConfig \<Rightarrow> FiberEvent list \<Rightarrow> real option \<Rightarrow> (nat \<Rightarrow> real) \<Rightarrow> AppState
     \<Rightarrow> AppState" where
  "displayEffect config events activeCut rng st =
     (if length (accumulatedY st) > 0 \<and> sampleCount st > 0 then
        st\<lparr>traceData :=
             tracePoints (range_km config) (length (accumulatedY st))
               (\<lambda>i. accumulatedY st ! i / real (sampleCount st))\<rparr>
      else if \<not> isSimulating st \<and> length (traceData st) = 0 then
        (let raw = calculateSingleTrace config events activeCut rng
         in st\<lparr>traceData := tracePoints (range_km config) (length raw) (\<lambda>i. raw ! i),
               detectedEvents := analyzeTrace config events activeCut\<rparr>)
      else st)"

subsection \<open>The initial state of the application (lines 158--174)\<close>

definition defaultConfig :: SimulationConfig where
  "defaultConfig =
     \<lparr>range_km = 20, pulseWidth = 100, wavelength = 1550, ior = 1.4682, averaging = 1,
      noiseFloor = -60, autoMode = True, testDuration = 15\<rparr>"

definition defaultEvents :: "FiberEvent list" where
  "defaultEvents =
     [\<lparr>event_id = ''start'', type = Start, distance = 0, loss = 0.5, reflectance = -35\<rparr>,
      \<lparr>event_id = ''e1'', type = Splice, distance = 5.2, loss = 0.1, reflectance = -99\<rparr>,
      \<lparr>event_id = ''e2'', type = Connector, distance = 12.5, loss = 0.5, reflectance = -40\<rparr>,
      \<lparr>event_id = ''end'', type = End, distance = 18.0, loss = 0, reflectance = -14\<rparr>]"

subsection \<open>Auxiliary definitions for the statements\<close>

text \<open>The noise amplitude as section 4.3 of the specification words it, to be compared
  with \<open>noiseAmplitude\<close>, which is what the source computes.\<close>

definition specNoiseAmplitude :: "real \<Rightarrow> real" where
  "specNoiseAmplitude pw = max 0.5 (5.0 / max 1 (log 10 pw / 2))"

text \<open>The row that \<open>analyzeLoop\<close> emits for the cut event of \<open>analyzerCut\<close> when it is the
  \<open>n\<close>-th event, follows the events \<open>F\<close> and the running total before it is \<open>t\<close>.\<close>

definition cutRecord :: "nat \<Rightarrow> FiberEvent list \<Rightarrow> nat \<Rightarrow> real \<Rightarrow> real \<Rightarrow> AnalysisRecord" where
  "cutRecord w F n d t =
     \<lparr>no = n, rec_type = Cut, location = d, shownReflectance = Some (-14),
      shownLoss = None,
      cumLoss = t + (d - (if n = 0 then 0 else distance (F ! (n - 1))))
                      * calculateAttenuation w\<rparr>"

text \<open>A topology of one event whose reflectance lies between the two thresholds -65 and
  -60 of the source.\<close>

definition weakReflector :: FiberEvent where
  "weakReflector =
     \<lparr>event_id = ''start'', type = Start, distance = 0, loss = 0.5, reflectance = -62\<rparr>"

text \<open>The state of the application when it is loaded (lines 176--185).\<close>

definition initialAppState :: AppState where
  "initialAppState =
     \<lparr>isSimulating = False, traceData = [], detectedEvents = [], elapsedTime = 0,
      accumulatedY = [], sampleCount = 0\<rparr>"



declare analyzeLoop.simps [simp del]
declare shotLoop.simps [simp del]

section \<open>Properties\<close>

subsection \<open>The analysis table of the initial topology\<close>

lemma actualEvents_defaultEvents: "actualEvents defaultEvents None = defaultEvents"
  by (simp add: actualEvents_def defaultEvents_def)

text \<open>
  Claim C5. For the topology start at 0 km (loss 0.5), splice at 5.2 km (loss 0.1),
  connector at 12.5 km (loss 0.5), end at 18 km (loss 0), at 1550 nm (0.20 dB/km) and
  with no cut, the analyzer emits three records (the start event is skipped, so its loss
  of 0.5 is not counted), each adding the loss of its event and the attenuation of the
  section before it; the cumulative loss of the end record is 4.20 dB.
\<close>

theorem analyzeTrace_default_cumLoss:
  "wavelength defaultConfig = 1550
   \<and> calculateAttenuation (wavelength defaultConfig) = 0.20
   \<and> map rec_type (analyzeTrace defaultConfig defaultEvents None) = [Splice, Connector, End]
   \<and> map cumLoss (analyzeTrace defaultConfig defaultEvents None)
       = [0.1 + 5.2 * 0.20,
          0.1 + 5.2 * 0.20 + 0.5 + (12.5 - 5.2) * 0.20,
          0.1 + 5.2 * 0.20 + 0.5 + (12.5 - 5.2) * 0.20 + 0 + (18 - 12.5) * 0.20]
   \<and> cumLoss (last (analyzeTrace defaultConfig defaultEvents None)) = 4.20"
  unfolding analyzeTrace_def actualEvents_defaultEvents
  by (simp add: defaultEvents_def defaultConfig_def analyzeLoop.simps
        calculateAttenuation_def Let_def)

subsection \<open>Noise amplitude of a shot\<close>

lemma log10_100: "log 10 100 = (2::real)"
  using log_pow_cancel[of 10 2] by simp

lemma noiseReductionFactor_ge_1:
  assumes "100 \<le> pw"
  shows "1 \<le> noiseReductionFactor pw"
proof -
  have "log 10 100 \<le> log 10 pw" using assms by simp
  then show ?thesis by (simp add: noiseReductionFactor_def log10_100)
qed

text \<open>
  Claim C2, as stated, fails: at a pulse width of 10 ns the factor \<open>log10(10)/2\<close> is 0.5,
  which \<^verbatim>\<open>|| 1\<close> leaves alone, so the source divides 5.0 by 0.5 and the amplitude is 10,
  where the formula with \<open>max(1, _)\<close> gives 5.
\<close>

theorem noiseAmplitude_10_counterexample:
  "noiseAmplitude 10 = 10 \<and> specNoiseAmplitude 10 = 5
   \<and> noiseAmplitude 10 \<noteq> specNoiseAmplitude 10"
  by (simp add: noiseAmplitude_def specNoiseAmplitude_def noiseReductionFactor_def
        baseNoiseAmp_def)

text \<open>
  Claim C2, amended. For a positive pulse width the amplitude is
  \<open>max(0.5, 5.0 / f)\<close> with \<open>f = log10(pulseWidth)/2\<close>, where \<open>f\<close> is replaced by 1 only
  when it is zero (pulse width 1). It agrees with \<open>max(0.5, 5.0 / max(1, f))\<close> when the
  pulse width is 1 or at least 100 ns.
\<close>

theorem noiseAmplitude_positive:
  assumes "0 < pw"
  shows "noiseAmplitude pw
           = max 0.5 (5.0 / (if log 10 pw / 2 = 0 then 1 else log 10 pw / 2))
         \<and> (pw = 1 \<or> 100 \<le> pw \<longrightarrow> noiseAmplitude pw = specNoiseAmplitude pw)"
proof (intro conjI impI)
  show "noiseAmplitude pw
          = max 0.5 (5.0 / (if log 10 pw / 2 = 0 then 1 else log 10 pw / 2))"
    using assms by (simp add: noiseAmplitude_def noiseReductionFactor_def baseNoiseAmp_def)
next
  assume h: "pw = 1 \<or> 100 \<le> pw"
  show "noiseAmplitude pw = specNoiseAmplitude pw"
  proof (cases "pw = 1")
    case True
    then show ?thesis
      by (simp add: noiseAmplitude_def specNoiseAmplitude_def noiseReductionFactor_def
            baseNoiseAmp_def)
  next
    case False
    with h have "100 \<le> pw" by simp
    from noiseReductionFactor_ge_1[OF this] have "1 \<le> log 10 pw / 2"
      by (simp add: noiseReductionFactor_def)
    then show ?thesis using assms
      by (simp add: noiseAmplitude_def specNoiseAmplitude_def noiseReductionFactor_def
            baseNoiseAmp_def max_def)
  qed
qed

theorem noiseAmplitude_positive_witness:
  "(0::real) < 100 \<and> noiseAmplitude 100 = 5 \<and> noiseAmplitude 100 = specNoiseAmplitude 100"
  using noiseAmplitude_positive[of 100] by (simp add: log10_100)

subsection \<open>The divisor of the ring-down ratio\<close>

text \<open>
  Claim C8. The ratio of the ring-down is the remaining distance divided by
  \<open>deadZoneDivisor\<close>, which is never zero: when the dead zone has length zero, as it has
  for a pulse width of 0, the divisor is 0.001.
\<close>

theorem deadZoneDivisor_nonzero:
  "deadZoneDivisor config \<noteq> 0
   \<and> (pulseWidth config = 0 \<longrightarrow>
        eventDeadZone config = 0 \<and> deadZoneDivisor config = 0.001)
   \<and> fst (ringDown config d idealPower st)
       = (if d < deadZoneActiveUntil st
          then idealPower
                 + ((deadZoneActiveUntil st - d) / deadZoneDivisor config) ^ 4
                     * (powerAtSaturation st - idealPower)
          else idealPower)"
  by (simp add: deadZoneDivisor_def eventDeadZone_def pulseLengthKm_def
        pulseWidthSeconds_def ringDown_def Let_def)

theorem deadZoneDivisor_nonzero_witness:
  "pulseWidth (defaultConfig\<lparr>pulseWidth := 0\<rparr>) = 0
   \<and> eventDeadZone (defaultConfig\<lparr>pulseWidth := 0\<rparr>) = 0
   \<and> deadZoneDivisor (defaultConfig\<lparr>pulseWidth := 0\<rparr>) = 0.001"
  using deadZoneDivisor_nonzero[of "defaultConfig\<lparr>pulseWidth := 0\<rparr>"] by simp

subsection \<open>Auto range and auto pulse width\<close>

lemma find_availableRanges_Some:
  "List.find P availableRanges = Some r \<Longrightarrow>
   r \<in> set availableRanges \<and> P r \<and> (\<forall>c\<in>set availableRanges. P c \<longrightarrow> r \<le> c)"
  by (auto simp: availableRanges_def split: if_splits)

lemma find_availableRanges_None:
  "List.find P availableRanges = None \<Longrightarrow> \<forall>c\<in>set availableRanges. \<not> P c"
  by (auto simp: find_None_iff)

lemma bestRange_in_ladder: "bestRange m \<in> set availableRanges"
proof (cases "List.find (\<lambda>r. r > m * 1.2) availableRanges")
  case None
  then show ?thesis by (simp add: bestRange_def) (simp add: availableRanges_def)
next
  case (Some r)
  with find_availableRanges_Some[OF Some] show ?thesis by (simp add: bestRange_def)
qed

lemma bestRange_smallest:
  assumes "c \<in> set availableRanges" "c > 1.2 * m"
  shows "bestRange m > 1.2 * m \<and> bestRange m \<le> c"
proof (cases "List.find (\<lambda>r. r > m * 1.2) availableRanges")
  case None
  from find_availableRanges_None[OF None] assms show ?thesis by (simp add: mult.commute)
next
  case (Some r)
  from find_availableRanges_Some[OF Some] assms Some show ?thesis
    by (simp add: bestRange_def mult.commute)
qed

lemma bestRange_default:
  assumes "\<forall>c\<in>set availableRanges. \<not> c > 1.2 * m"
  shows "bestRange m = 300"
proof (cases "List.find (\<lambda>r. r > m * 1.2) availableRanges")
  case None
  then show ?thesis by (simp add: bestRange_def)
next
  case (Some r)
  from find_availableRanges_Some[OF Some] have "r \<in> set availableRanges" "r > 1.2 * m"
    by (simp_all add: mult.commute)
  with assms show ?thesis by blast
qed

text \<open>
  Claim C4. With \<open>m\<close> the maximal distance of the auto mode (the distance of the end
  event, or the smaller of it and the cut distance when a cut is active), the selected
  range is a member of the ladder 5, 10, 20, 40, 80, 160, 300; it is the smallest member
  strictly greater than \<open>1.2 m\<close> when there is one and 300 otherwise; the pulse width
  follows the step table; for \<open>m = 18\<close> the selection is 40 km and 500 ns.
\<close>

theorem autoSelect_ladder:
  "(\<forall>e. List.find isEnd events = Some e \<longrightarrow>
        autoMaxDist events None = distance e
        \<and> (\<forall>c. autoMaxDist events (Some c) = min (distance e) c))
   \<and> autoSelect events activeCut
       = (bestRange (autoMaxDist events activeCut),
          bestPulse (bestRange (autoMaxDist events activeCut)))
   \<and> availableRanges = [5, 10, 20, 40, 80, 160, 300]
   \<and> bestRange m \<in> set availableRanges
   \<and> (\<forall>c\<in>set availableRanges. c > 1.2 * m \<longrightarrow> bestRange m > 1.2 * m \<and> bestRange m \<le> c)
   \<and> ((\<forall>c\<in>set availableRanges. \<not> c > 1.2 * m) \<longrightarrow> bestRange m = 300)
   \<and> bestPulse r = (if r \<le> 5 then 10 else if r \<le> 20 then 100 else if r \<le> 40 then 500
                     else if r \<le> 80 then 1000 else if r \<le> 160 then 10000 else 20000)
   \<and> map bestPulse availableRanges = [10, 100, 100, 500, 1000, 10000, 20000]
   \<and> (autoMaxDist events activeCut = 18 \<longrightarrow> autoSelect events activeCut = (40, 500))"
proof (intro conjI)
  show "\<forall>e. List.find isEnd events = Some e \<longrightarrow>
        autoMaxDist events None = distance e
        \<and> (\<forall>c. autoMaxDist events (Some c) = min (distance e) c)"
    by (auto simp: autoMaxDist_def min_def)
  show "autoSelect events activeCut
       = (bestRange (autoMaxDist events activeCut),
          bestPulse (bestRange (autoMaxDist events activeCut)))"
    by (simp add: autoSelect_def Let_def)
  show "availableRanges = [5, 10, 20, 40, 80, 160, 300]"
    by (simp add: availableRanges_def)
  show "bestRange m \<in> set availableRanges" by (rule bestRange_in_ladder)
  show "\<forall>c\<in>set availableRanges. c > 1.2 * m \<longrightarrow> bestRange m > 1.2 * m \<and> bestRange m \<le> c"
    using bestRange_smallest by blast
  show "(\<forall>c\<in>set availableRanges. \<not> c > 1.2 * m) \<longrightarrow> bestRange m = 300"
    using bestRange_default by blast
  show "bestPulse r = (if r \<le> 5 then 10 else if r \<le> 20 then 100 else if r \<le> 40 then 500
                     else if r \<le> 80 then 1000 else if r \<le> 160 then 10000 else 20000)"
    by (simp add: bestPulse_def)
  show "map bestPulse availableRanges = [10, 100, 100, 500, 1000, 10000, 20000]"
    by (simp add: bestPulse_def availableRanges_def)
  show "autoMaxDist events activeCut = 18 \<longrightarrow> autoSelect events activeCut = (40, 500)"
    by (simp add: autoSelect_def bestRange_def bestPulse_def availableRanges_def)
qed

theorem autoSelect_ladder_witness:
  "List.find isEnd defaultEvents = Some (defaultEvents ! 3)
   \<and> autoMaxDist defaultEvents None = 18
   \<and> autoMaxDist defaultEvents (Some 10) = 10
   \<and> (40::real) \<in> set availableRanges \<and> (40::real) > 1.2 * 18
   \<and> bestRange 18 = 40
   \<and> autoSelect defaultEvents None = (40, 500)"
proof -
  have f: "List.find isEnd defaultEvents = Some (defaultEvents ! 3)"
    by (simp add: defaultEvents_def isEnd_def)
  have d: "distance (defaultEvents ! 3) = 18" by (simp add: defaultEvents_def)
  have l: "(40::real) \<in> set availableRanges" by (simp add: availableRanges_def)
  have u: "\<forall>c\<in>set availableRanges. c > 1.2 * (18::real) \<longrightarrow> 40 \<le> c"
    by (simp add: availableRanges_def)
  show ?thesis
    using autoSelect_ladder[of defaultEvents None 18 40] f d l u
    by (auto simp: min_def)
qed

subsection \<open>The terminal distance of a shot without an end event\<close>

lemma effectiveEndDistance_no_end:
  assumes "\<forall>e\<in>set events. type e = End \<longrightarrow> distance e = 0"
  shows "effectiveEndDistance config events None = range_km config"
proof (cases "List.find isEnd (sort_key distance events)")
  case None
  then show ?thesis by (simp add: effectiveEndDistance_def)
next
  case (Some e)
  then obtain i where "i < length (sort_key distance events)"
      "isEnd (sort_key distance events ! i)" "e = sort_key distance events ! i"
    by (auto simp: find_Some_iff)
  then have "e \<in> set events" and "isEnd e"
    using nth_mem[of i "sort_key distance events"] by simp_all
  with assms have "distance e = 0" by (simp add: isEnd_def)
  with Some show ?thesis by (simp add: effectiveEndDistance_def)
qed

lemma sampleDistance_less_range:
  assumes "0 < range_km config" "i < numPoints"
  shows "sampleDistance config i < range_km config"
proof -
  have "real i < real numPoints" using assms by simp
  then have "real i * range_km config < real numPoints * range_km config"
    using assms(1) by simp
  moreover have "0 < real numPoints" by (simp add: numPoints_def)
  ultimately show ?thesis
    by (simp add: sampleDistance_def stepSize_def field_simps)
qed

text \<open>
  Claim C10. When no cut is active and the topology has no end event, or only end
  events at distance 0, the terminal distance of the shot is the configured range; for a
  positive range every sample distance \<open>i * range / 4000\<close> with \<open>i < 4000\<close> is strictly
  below it, so the past-terminal rule replaces no sample: the value before the noise is
  the value after the reflection step.
\<close>

theorem effectiveEndDistance_without_end:
  assumes "\<forall>e\<in>set events. type e = End \<longrightarrow> distance e = 0"
    and "0 < range_km config"
  shows "effectiveEndDistance config events None = range_km config
       \<and> (\<forall>i<numPoints.
            sampleDistance config i < range_km config
            \<and> \<not> pastTerminal (sampleDistance config i)
                   (effectiveEndDistance config events None)
            \<and> traceValue (shotSample config evs
                             (effectiveEndDistance config events None) rnd i st)
                = peakValue (shotSample config evs
                               (effectiveEndDistance config events None) rnd i st))"
proof -
  have e: "effectiveEndDistance config events None = range_km config"
    by (rule effectiveEndDistance_no_end[OF assms(1)])
  have s: "sampleDistance config i < range_km config" if "i < numPoints" for i
    using sampleDistance_less_range[OF assms(2) that] .
  have p: "\<not> pastTerminal (sampleDistance config i) (range_km config)"
    if "i < numPoints" for i
    using s[OF that] by (simp add: pastTerminal_def)
  show ?thesis
    unfolding e using s p by (simp add: shotSample_def Let_def)
qed

theorem effectiveEndDistance_without_end_witness:
  "0 < range_km defaultConfig
   \<and> effectiveEndDistance defaultConfig (take 3 defaultEvents) None = 20
   \<and> sampleDistance defaultConfig 3999 < 20
   \<and> \<not> pastTerminal (sampleDistance defaultConfig 3999) 20"
proof -
  have h: "\<forall>e\<in>set (take 3 defaultEvents). type e = End \<longrightarrow> distance e = 0"
    by (simp add: defaultEvents_def)
  have r: "0 < range_km defaultConfig" by (simp add: defaultConfig_def)
  have n: "3999 < numPoints" by (simp add: numPoints_def)
  note t = effectiveEndDistance_without_end[OF h r,
      where evs = "[]" and rnd = 0 and st = initialShotState]
  from t have e: "effectiveEndDistance defaultConfig (take 3 defaultEvents) None = 20"
    by (simp add: defaultConfig_def)
  from t n have "sampleDistance defaultConfig 3999 < range_km defaultConfig
      \<and> \<not> pastTerminal (sampleDistance defaultConfig 3999)
             (effectiveEndDistance defaultConfig (take 3 defaultEvents) None)"
    by blast
  then show ?thesis using r unfolding e by (simp add: defaultConfig_def)
qed

subsection \<open>The cut overlay\<close>

lemma insort_key_snoc:
  "f a < f c \<Longrightarrow> insort_key f a (ys @ [c]) = insort_key f a ys @ [c]"
  by (induction ys) auto

lemma foldr_insort_key_snoc:
  "\<forall>a\<in>set xs. f a < f c \<Longrightarrow>
   foldr (insort_key f) xs [c] = foldr (insort_key f) xs [] @ [c]"
proof (induction xs)
  case Nil
  then show ?case by simp
next
  case (Cons b xs)
  then show ?case using insort_key_snoc[of f b c] by simp
qed

lemma sort_key_snoc:
  "\<forall>a\<in>set xs. f a < f c \<Longrightarrow> sort_key f (xs @ [c]) = sort_key f xs @ [c]"
  using foldr_insort_key_snoc[of xs f c] by (simp add: sort_key_def)

lemma actualEvents_cut:
  "actualEvents events (Some d) =
     filter (\<lambda>e. distance e < d) (sort_key distance events) @ [analyzerCut d]"
proof -
  have "\<forall>e\<in>set (filter (\<lambda>e. distance e < d) events).
          distance e < distance (analyzerCut d)"
    by (simp add: analyzerCut_def)
  from sort_key_snoc[OF this] show ?thesis
    by (simp add: actualEvents_def filter_sort)
qed

lemma analyzeLoop_snoc:
  "i \<le> length F \<Longrightarrow>
   analyzeLoop w (F @ [analyzerCut d]) i t =
     analyzeLoop w F i t @
       [cutRecord w F (length F) d
          (if analyzeLoop w F i t = [] then t else cumLoss (last (analyzeLoop w F i t)))]"
proof (induction w F i t rule: analyzeLoop.induct)
  case (1 w evs i t)
  show ?case
  proof (cases "i < length evs")
    case False
    with 1(3) have i: "i = length evs" by simp
    have "analyzeLoop w evs i t = []" using False by (simp add: analyzeLoop.simps)
    moreover have "analyzeLoop w (evs @ [analyzerCut d]) (length evs + 1)
        (t + (d - (if length evs = 0 then 0
                   else distance ((evs @ [analyzerCut d]) ! (length evs - 1))))
               * calculateAttenuation w) = []"
      by (simp add: analyzeLoop.simps)
    ultimately show ?thesis unfolding i
      apply (subst analyzeLoop.simps)
      apply (simp add: analyzerCut_def cutRecord_def Let_def nth_append)
      done
  next
    case True
    note lt = True
    show ?thesis
    proof (cases "type (evs ! i) = Start")
      case True
      have "analyzeLoop w evs i t = analyzeLoop w evs (i + 1) t"
        using lt True by (subst analyzeLoop.simps) (simp add: Let_def)
      moreover have "analyzeLoop w (evs @ [analyzerCut d]) i t
                       = analyzeLoop w (evs @ [analyzerCut d]) (i + 1) t"
        using lt True by (subst analyzeLoop.simps) (simp add: Let_def nth_append)
      moreover have "i + 1 \<le> length evs" using lt by simp
      ultimately show ?thesis using 1(1)[OF lt refl True] by simp
    next
      case False
      define t2 where "t2 = t + loss (evs ! i)
          + (distance (evs ! i) - (if i = 0 then 0 else distance (evs ! (i - 1))))
              * calculateAttenuation w"
      define r where "r = \<lparr>no = i, rec_type = type (evs ! i), location = distance (evs ! i),
          shownReflectance =
            (if reflectance (evs ! i) > -60 then Some (reflectance (evs ! i)) else None),
          shownLoss = (if type (evs ! i) = Cut then None else Some (loss (evs ! i))),
          cumLoss = t2\<rparr>"
      have a: "analyzeLoop w evs i t = r # analyzeLoop w evs (i + 1) t2"
        using lt False by (subst analyzeLoop.simps) (simp add: Let_def r_def t2_def)
      have b: "analyzeLoop w (evs @ [analyzerCut d]) i t
                 = r # analyzeLoop w (evs @ [analyzerCut d]) (i + 1) t2"
        using lt False less_imp_diff_less[OF lt, of 1]
        by (subst analyzeLoop.simps, cases "i = 0")
           (simp_all add: Let_def nth_append r_def t2_def)
      have le: "i + 1 \<le> length evs" using lt by simp
      have ih: "analyzeLoop w (evs @ [analyzerCut d]) (i + 1) t2 =
         analyzeLoop w evs (i + 1) t2 @
           [cutRecord w evs (length evs) d
              (if analyzeLoop w evs (i + 1) t2 = [] then t2
               else cumLoss (last (analyzeLoop w evs (i + 1) t2)))]"
        using 1(2)[OF lt refl False refl refl refl refl refl le] unfolding t2_def by simp
      show ?thesis unfolding a b ih by (simp add: r_def)
    qed
  qed
qed

text \<open>
  Claim C3, as stated, fails for the analyzer: with the initial topology cut at 10 km
  the synthesis appends a cut event of loss 50, the analyzer one of loss 0, and the
  cumulative loss of the cut record is 2.10 dB, not 52.10 dB.
\<close>

theorem analyzer_cut_counterexample:
  "loss (last (sortedEvents defaultEvents (Some 10))) = 50
   \<and> loss (last (actualEvents defaultEvents (Some 10))) = 0
   \<and> map rec_type (analyzeTrace defaultConfig defaultEvents (Some 10)) = [Splice, Cut]
   \<and> map cumLoss (analyzeTrace defaultConfig defaultEvents (Some 10)) = [1.14, 2.1]
   \<and> cumLoss (last (analyzeTrace defaultConfig defaultEvents (Some 10)))
       \<noteq> 1.14 + 50 + (10 - 5.2) * 0.20"
proof -
  have a: "actualEvents defaultEvents (Some 10) = take 2 defaultEvents @ [analyzerCut 10]"
    by (simp add: actualEvents_def defaultEvents_def analyzerCut_def)
  show ?thesis
    unfolding analyzeTrace_def a
    by (simp add: sortedEvents_def cutPoint_def defaultEvents_def defaultConfig_def
          analyzerCut_def analyzeLoop.simps calculateAttenuation_def Let_def)
qed

text \<open>
  Claim C3, amended. With a cut at distance \<open>d\<close>, the synthesis and the analyzer both
  keep exactly the events of distance below \<open>d\<close>, in ascending distance, and append one
  cut event at \<open>d\<close> with reflectance -14. Its loss is 50 in the synthesis and 0 in the
  analyzer: the table is the table of the kept events followed by one cut record, whose
  cumulative loss adds to the total before it only the attenuation of the last section.
\<close>

theorem cut_overlay:
  "sortedEvents events (Some d)
     = filter (\<lambda>e. distance e < d) (sort_key distance events) @ [cutPoint d]
   \<and> type (cutPoint d) = Cut \<and> distance (cutPoint d) = d
   \<and> loss (cutPoint d) = 50 \<and> reflectance (cutPoint d) = -14
   \<and> actualEvents events (Some d)
       = filter (\<lambda>e. distance e < d) (sort_key distance events) @ [analyzerCut d]
   \<and> type (analyzerCut d) = Cut \<and> distance (analyzerCut d) = d
   \<and> loss (analyzerCut d) = 0 \<and> reflectance (analyzerCut d) = -14
   \<and> analyzeTrace config events (Some d)
       = analyzeLoop (wavelength config)
           (filter (\<lambda>e. distance e < d) (sort_key distance events)) 0 0
         @ [cutRecord (wavelength config)
              (filter (\<lambda>e. distance e < d) (sort_key distance events))
              (length (filter (\<lambda>e. distance e < d) (sort_key distance events))) d
              (if analyzeLoop (wavelength config)
                    (filter (\<lambda>e. distance e < d) (sort_key distance events)) 0 0 = []
               then 0
               else cumLoss (last (analyzeLoop (wavelength config)
                      (filter (\<lambda>e. distance e < d) (sort_key distance events)) 0 0)))]"
proof (intro conjI)
  show "analyzeTrace config events (Some d)
       = analyzeLoop (wavelength config)
           (filter (\<lambda>e. distance e < d) (sort_key distance events)) 0 0
         @ [cutRecord (wavelength config)
              (filter (\<lambda>e. distance e < d) (sort_key distance events))
              (length (filter (\<lambda>e. distance e < d) (sort_key distance events))) d
              (if analyzeLoop (wavelength config)
                    (filter (\<lambda>e. distance e < d) (sort_key distance events)) 0 0 = []
               then 0
               else cumLoss (last (analyzeLoop (wavelength config)
                      (filter (\<lambda>e. distance e < d) (sort_key distance events)) 0 0)))]"
    unfolding analyzeTrace_def actualEvents_cut
    by (rule analyzeLoop_snoc) simp
qed (simp_all add: sortedEvents_def actualEvents_cut cutPoint_def analyzerCut_def)

subsection \<open>Monotonicity of the cumulative loss\<close>

lemma calculateAttenuation_nonneg: "0 \<le> calculateAttenuation w"
  by (simp add: calculateAttenuation_def)

lemma analyzeLoop_location:
  "map location (analyzeLoop w evs i t)
     = map distance (filter (\<lambda>e. type e \<noteq> Start) (drop i evs))"
proof (induction w evs i t rule: analyzeLoop.induct)
  case (1 w evs i t)
  show ?case
  proof (cases "i < length evs")
    case False
    then show ?thesis by (subst analyzeLoop.simps) simp
  next
    case True
    then have d: "drop i evs = evs ! i # drop (i + 1) evs"
      by (simp add: Cons_nth_drop_Suc)
    show ?thesis
    proof (cases "type (evs ! i) = Start")
      case True
      with 1(1)[OF \<open>i < length evs\<close> refl True] \<open>i < length evs\<close> show ?thesis
        by (subst analyzeLoop.simps, subst d) (simp add: Let_def)
    next
      case False
      with 1(2)[OF \<open>i < length evs\<close> refl False refl refl refl refl refl] \<open>i < length evs\<close>
      show ?thesis
        by (subst analyzeLoop.simps, subst d) (simp add: Let_def)
    qed
  qed
qed

lemma analyzeLoop_monotone:
  assumes "sorted (map distance evs)" "\<forall>e\<in>set evs. 0 \<le> loss e" "0 < i"
  shows "(\<forall>r\<in>set (analyzeLoop w evs i t). t \<le> cumLoss r)
         \<and> sorted (map cumLoss (analyzeLoop w evs i t))"
  using assms
proof (induction w evs i t rule: analyzeLoop.induct)
  case (1 w evs i t)
  show ?case
  proof (cases "i < length evs")
    case False
    then show ?thesis by (subst analyzeLoop.simps, subst analyzeLoop.simps) simp
  next
    case lt: True
    show ?thesis
    proof (cases "type (evs ! i) = Start")
      case True
      have "analyzeLoop w evs i t = analyzeLoop w evs (i + 1) t"
        using lt True by (subst analyzeLoop.simps) (simp add: Let_def)
      with 1(1)[OF lt refl True 1(3) 1(4)] show ?thesis by simp
    next
      case False
      define t2 where "t2 = t + loss (evs ! i) + (distance (evs ! i) - distance (evs ! (i - 1))) * calculateAttenuation w"
      define r where "r = \<lparr>no = i, rec_type = type (evs ! i), location = distance (evs ! i),
                   shownReflectance = (if reflectance (evs ! i) > -60 then Some (reflectance (evs ! i)) else None),
                   shownLoss = (if type (evs ! i) = Cut then None else Some (loss (evs ! i))),
                   cumLoss = t2\<rparr>"
      have a: "analyzeLoop w evs i t = r # analyzeLoop w evs (i + 1) t2"
        using lt False \<open>0 < i\<close> by (subst analyzeLoop.simps) (simp add: Let_def r_def t2_def)
      have ih: "(\<forall>r\<in>set (analyzeLoop w evs (i + 1) t2). t2 \<le> cumLoss r)
         \<and> sorted (map cumLoss (analyzeLoop w evs (i + 1) t2))"
        using 1(2)[OF lt refl False refl refl refl refl refl 1(3) 1(4)] \<open>0 < i\<close>
        unfolding t2_def by simp
      have "distance (evs ! (i - 1)) \<le> distance (evs ! i)"
        using sorted_nth_mono[OF 1(3), of "i - 1" i] lt by simp
      then have "0 \<le> (distance (evs ! i) - distance (evs ! (i - 1))) * calculateAttenuation w"
        using calculateAttenuation_nonneg[of w] by simp
      moreover have "0 \<le> loss (evs ! i)" using 1(4) lt by simp
      ultimately have le: "t \<le> t2" unfolding t2_def by linarith
      show ?thesis unfolding a using ih le by (auto simp: r_def)
    qed
  qed
qed

lemma analyzeLoop_sorted:
  assumes "sorted (map distance evs)" "\<forall>e\<in>set evs. 0 \<le> loss e"
  shows "sorted (map cumLoss (analyzeLoop w evs 0 t))"
proof (cases "0 < length evs")
  case False
  then show ?thesis by (subst analyzeLoop.simps) simp
next
  case lt: True
  show ?thesis
  proof (cases "type (evs ! 0) = Start")
    case True
    have "analyzeLoop w evs 0 t = analyzeLoop w evs 1 t"
      using lt True by (subst analyzeLoop.simps) (simp add: Let_def)
    with analyzeLoop_monotone[OF assms, of 1 w t] show ?thesis by simp
  next
    case False
    define t2 where "t2 = t + loss (evs ! 0) + (distance (evs ! 0) - 0) * calculateAttenuation w"
    have "\<exists>r. analyzeLoop w evs 0 t = r # analyzeLoop w evs 1 t2 \<and> cumLoss r = t2"
      using lt False by (subst analyzeLoop.simps) (simp add: Let_def t2_def)
    then obtain r where a: "analyzeLoop w evs 0 t = r # analyzeLoop w evs 1 t2" "cumLoss r = t2"
      by blast
    with analyzeLoop_monotone[OF assms, of 1 w t2] show ?thesis by auto
  qed
qed

lemma actualEvents_sorted: "sorted (map distance (actualEvents events activeCut))"
  by (simp add: actualEvents_def)

lemma actualEvents_loss:
  assumes "\<forall>e\<in>set events. 0 \<le> loss e"
  shows "\<forall>e\<in>set (actualEvents events activeCut). 0 \<le> loss e"
  using assms by (auto simp: actualEvents_def analyzerCut_def split: option.splits)

text \<open>
  Claim C6. When every event of the topology has a non-negative loss, the cumulative
  losses of the table are non-decreasing in the order of the records, with or without a
  cut, and the records are in ascending distance.
\<close>

theorem cumLoss_nondecreasing:
  assumes "\<forall>e\<in>set events. 0 \<le> loss e"
  shows "sorted (map cumLoss (analyzeTrace config events activeCut))
       \<and> sorted (map location (analyzeTrace config events activeCut))"
proof
  show "sorted (map cumLoss (analyzeTrace config events activeCut))"
    unfolding analyzeTrace_def
    by (rule analyzeLoop_sorted[OF actualEvents_sorted actualEvents_loss[OF assms]])
  show "sorted (map location (analyzeTrace config events activeCut))"
    unfolding analyzeTrace_def analyzeLoop_location
    using sorted_filter[OF actualEvents_sorted, of "\<lambda>e. type e \<noteq> Start" events activeCut]
    by simp
qed

theorem cumLoss_nondecreasing_witness:
  "sorted (map cumLoss (analyzeTrace defaultConfig defaultEvents (Some 10)))
   \<and> sorted (map location (analyzeTrace defaultConfig defaultEvents (Some 10)))"
proof -
  have h: "\<forall>e\<in>set defaultEvents. 0 \<le> loss e" by (simp add: defaultEvents_def)
  show ?thesis by (rule cumLoss_nondecreasing[OF h])
qed

subsection \<open>Length and lower bound of a shot\<close>














subsection \<open>The reflection peak\<close>

lemma eventDeadZone_default_pos: "0 < eventDeadZone defaultConfig"
  by (simp add: eventDeadZone_def pulseLengthKm_def pulseWidthSeconds_def
        speedOfLightKmS_def defaultConfig_def)

lemma noiseAmplitude_default: "noiseAmplitude (pulseWidth defaultConfig) = 5"
  by (simp add: noiseAmplitude_def noiseReductionFactor_def baseNoiseAmp_def
        defaultConfig_def log10_100)

text \<open>
  Claim C1, as stated, fails: an event of reflectance -62, between the two thresholds,
  gets the spike of height \<open>-62 + 75 = 13\<close> added at its triggering sample. In the shot
  of that topology the first sample, without noise, is 25.5: the ideal power -0.5, the
  ring-down 13 and the peak 13.
\<close>

theorem reflection_peak_counterexample:
  "peakValue (shotSample defaultConfig [weakReflector] 20 (1/2) 0 initialShotState)
     - ringDownValue (shotSample defaultConfig [weakReflector] 20 (1/2) 0 initialShotState)
     = 13
   \<and> hd (calculateSingleTrace defaultConfig [weakReflector] None (\<lambda>k. 1/2)) = 25.5"
proof
  show "peakValue (shotSample defaultConfig [weakReflector] 20 (1/2) 0 initialShotState)
     - ringDownValue (shotSample defaultConfig [weakReflector] 20 (1/2) 0 initialShotState)
     = 13"
    by (simp add: shotSample_def eventStep_def addReflection_def Let_def weakReflector_def
          sampleDistance_def initialShotState_def)
  show "hd (calculateSingleTrace defaultConfig [weakReflector] None (\<lambda>k. 1/2)) = 25.5"
    using eventDeadZone_default_pos
    apply (simp add: calculateSingleTrace_def sortedEvents_def effectiveEndDistance_def
             isEnd_def weakReflector_def)
    apply (subst shotLoop.simps)
    apply (simp add: numPoints_def Let_def shotSample_def eventStep_def addReflection_def
             sampleDistance_def initialShotState_def ringDown_def deadZoneDivisor_def
             pastTerminal_def addNoise_def calculateAttenuation_def)
    apply (simp add: defaultConfig_def)
    done
qed

text \<open>
  Claim C1, amended. In a shot, when the event under the pointer is reached, the spike of
  height \<open>reflectance + 75\<close> is added onto the sample at the triggering index exactly
  when \<open>reflectance > -65\<close>, the same threshold that starts the dead zone; the shot does
  not use the threshold -60.
\<close>

theorem reflection_peak_threshold:
  assumes "eventIndex st < length evs"
    and "distance (evs ! eventIndex st) \<le> sampleDistance config i"
  shows "es_justTriggeredEvent (eventStep config evs (sampleDistance config i) st)
       \<and> peakValue (shotSample config evs endDistance rnd i st)
           = ringDownValue (shotSample config evs endDistance rnd i st)
             + (if reflectance (evs ! eventIndex st) > -65
                then reflectance (evs ! eventIndex st) + 75 else 0)
       \<and> deadZoneActiveUntil (es_state (eventStep config evs (sampleDistance config i) st))
           = (if reflectance (evs ! eventIndex st) > -65
              then distance (evs ! eventIndex st) + eventDeadZone config
              else deadZoneActiveUntil st)"
  using assms
  by (simp add: shotSample_def eventStep_def addReflection_def Let_def)

theorem reflection_peak_threshold_witness:
  "eventIndex initialShotState < length defaultEvents
   \<and> distance (defaultEvents ! eventIndex initialShotState) \<le> sampleDistance defaultConfig 0
   \<and> peakValue (shotSample defaultConfig defaultEvents 18 (1/2) 0 initialShotState)
       = ringDownValue (shotSample defaultConfig defaultEvents 18 (1/2) 0 initialShotState)
         + 40"
proof -
  have a: "eventIndex initialShotState < length defaultEvents"
    by (simp add: initialShotState_def defaultEvents_def)
  have b: "distance (defaultEvents ! eventIndex initialShotState)
             \<le> sampleDistance defaultConfig 0"
    by (simp add: initialShotState_def defaultEvents_def sampleDistance_def)
  have c: "reflectance (defaultEvents ! eventIndex initialShotState) = -35"
    by (simp add: initialShotState_def defaultEvents_def)
  from reflection_peak_threshold[OF a b, of 18 "1/2"] a b show ?thesis
    unfolding c by simp
qed

subsection \<open>Accumulation and the displayed trace\<close>

lemma map_nth_comp: "map (\<lambda>i. g (xs ! i)) [0..<length xs] = map g xs"
  by (rule nth_equalityI) auto

lemma map_y_tracePoints: "map y (tracePoints r n f) = map f [0..<n]"
  by (simp add: tracePoints_def comp_def)

lemma display_avg:
  assumes "0 < sampleCount st" "accumulatedY st \<noteq> []"
  shows "map y (traceData (displayEffect config events activeCut rng st))
           = map (\<lambda>v. v / real (sampleCount st)) (accumulatedY st)"
proof -
  have "traceData (displayEffect config events activeCut rng st)
      = tracePoints (range_km config) (length (accumulatedY st))
               (\<lambda>i. accumulatedY st ! i / real (sampleCount st))"
    using assms by (simp add: displayEffect_def)
  then show ?thesis
    using map_nth_comp[of "\<lambda>v. v / real (sampleCount st)" "accumulatedY st"]
    by (simp add: map_y_tracePoints)
qed

lemma display_initial:
  assumes "sampleCount st = 0" "\<not> isSimulating st" "traceData st = []"
  shows "map y (traceData (displayEffect config events activeCut rng st))
           = calculateSingleTrace config events activeCut rng
       \<and> accumulatedY (displayEffect config events activeCut rng st) = accumulatedY st
       \<and> sampleCount (displayEffect config events activeCut rng st) = 0"
  using assms
  by (simp add: displayEffect_def Let_def map_y_tracePoints map_nth)

lemma display_stale:
  assumes "sampleCount st = 0" "isSimulating st \<or> traceData st \<noteq> []"
  shows "displayEffect config events activeCut rng st = st"
  using assms by (auto simp: displayEffect_def)

lemma accumulate_length:
  assumes "length prev = n" "length new = n"
  shows "length (accumulate prev new) = n"
  using assms by (simp add: accumulate_def)

lemma accumulate_nth:
  assumes "length prev = n" "length new = n" "i < n"
  shows "accumulate prev new ! i = prev ! i + new ! i"
  using assms by (simp add: accumulate_def)

lemma accumulate_Nil: "accumulate [] new = new"
  by (simp add: accumulate_def)

lemma acquire_fields:
  "accumulatedY (acquire t s) = accumulate (accumulatedY s) t"
  "sampleCount (acquire t s) = sampleCount s + 1"
  by (simp_all add: acquire_def)

lemma acquire_all_count:
  "sampleCount (foldl (\<lambda>s t. acquire t s) st0 shots) = sampleCount st0 + length shots"
  by (induction shots rule: rev_induct) (simp_all add: acquire_fields)

lemma acquire_all_sum:
  assumes "accumulatedY st0 = []" and "\<forall>s\<in>set shots. length s = n" and "shots \<noteq> []"
  shows "length (accumulatedY (foldl (\<lambda>s t. acquire t s) st0 shots)) = n
       \<and> (\<forall>i<n. accumulatedY (foldl (\<lambda>s t. acquire t s) st0 shots) ! i
                   = sum_list (map (\<lambda>s. s ! i) shots))"
  using assms(2,3)
proof (induction shots rule: rev_induct)
  case Nil
  then show ?case by simp
next
  case (snoc t shots)
  define p where "p = foldl (\<lambda>s t. acquire t s) st0 shots"
  have lt: "length t = n" using snoc.prems(1) by simp
  have step: "accumulatedY (foldl (\<lambda>s t. acquire t s) st0 (shots @ [t]))
                = accumulate (accumulatedY p) t"
    by (simp add: p_def acquire_fields)
  show ?case
  proof (cases "shots = []")
    case True
    then have "accumulatedY p = []" using assms(1) by (simp add: p_def)
    then show ?thesis unfolding step using lt True by (simp add: accumulate_Nil)
  next
    case False
    have all: "\<forall>s\<in>set shots. length s = n" using snoc.prems(1) by simp
    from snoc.IH[OF all False]
    have len: "length (accumulatedY p) = n"
      and nth: "\<And>i. i < n \<Longrightarrow> accumulatedY p ! i = sum_list (map (\<lambda>s. s ! i) shots)"
      unfolding p_def by blast+
    have "length (accumulate (accumulatedY p) t) = n"
      by (rule accumulate_length[OF len lt])
    moreover have "accumulate (accumulatedY p) t ! i = sum_list (map (\<lambda>s. s ! i) (shots @ [t]))"
      if "i < n" for i
      using accumulate_nth[OF len lt that] nth[OF that] by simp
    ultimately show ?thesis unfolding step by blast
  qed
qed

lemma first_sample_default:
  assumes "0 \<le> r"
  shows "hd (calculateSingleTrace defaultConfig defaultEvents None (\<lambda>k. r))
           = 79.5 + (r - 0.5) * 5"
  using eventDeadZone_default_pos assms
  apply (simp add: calculateSingleTrace_def sortedEvents_def effectiveEndDistance_def
           isEnd_def defaultEvents_def)
  apply (subst shotLoop.simps)
  apply (simp add: numPoints_def Let_def shotSample_def eventStep_def addReflection_def
           sampleDistance_def initialShotState_def ringDown_def deadZoneDivisor_def
           pastTerminal_def addNoise_def calculateAttenuation_def noiseAmplitude_default)
  apply (simp add: defaultConfig_def)
  done

text \<open>
  Claim C9, as stated, fails in its second half. After the initial static trace has been
  displayed and an acquisition is started, the count is 0, yet the display effect leaves
  the displayed trace as it was: it still shows the earlier shot (first sample 79.5), not
  a fresh one (whose first sample, with the random number 0, is 77).
\<close>

theorem display_stale_counterexample:
  "sampleCount (startSimulation
       (displayEffect defaultConfig defaultEvents None (\<lambda>k. 1/2) initialAppState)) = 0
   \<and> map y (traceData (displayEffect defaultConfig defaultEvents None (\<lambda>k. 0)
        (startSimulation
          (displayEffect defaultConfig defaultEvents None (\<lambda>k. 1/2) initialAppState))))
       = calculateSingleTrace defaultConfig defaultEvents None (\<lambda>k. 1/2)
   \<and> hd (calculateSingleTrace defaultConfig defaultEvents None (\<lambda>k. 1/2)) = 79.5
   \<and> hd (calculateSingleTrace defaultConfig defaultEvents None (\<lambda>k. 0)) = 77"
proof -
  define s1 where "s1 = displayEffect defaultConfig defaultEvents None (\<lambda>k. 1/2) initialAppState"
  have i: "sampleCount initialAppState = 0" "\<not> isSimulating initialAppState"
    "traceData initialAppState = []"
    by (simp_all add: initialAppState_def)
  from display_initial[OF i, of defaultConfig defaultEvents None "\<lambda>k. 1/2"]
  have m: "map y (traceData s1) = calculateSingleTrace defaultConfig defaultEvents None (\<lambda>k. 1/2)"
    and c: "sampleCount s1 = 0"
    unfolding s1_def by blast+
  have s2: "sampleCount (startSimulation s1) = 0" "isSimulating (startSimulation s1)"
    "traceData (startSimulation s1) = traceData s1"
    by (simp_all add: startSimulation_def)
  have st: "displayEffect defaultConfig defaultEvents None (\<lambda>k. 0) (startSimulation s1)
              = startSimulation s1"
    by (rule display_stale) (simp_all add: s2)
  have h1: "hd (calculateSingleTrace defaultConfig defaultEvents None (\<lambda>k. 1/2)) = 79.5"
    using first_sample_default[of "1/2"] by simp
  have h2: "hd (calculateSingleTrace defaultConfig defaultEvents None (\<lambda>k. 0)) = 77"
    using first_sample_default[of 0] by simp
  show ?thesis
    unfolding s1_def[symmetric] st using s2 m h1 h2 by simp
qed

text \<open>
  Claim C9, amended. When the count is positive and the accumulator is not empty, the
  \<open>i\<close>-th value of the displayed trace is \<open>sum[i] / count\<close>; after a start followed by
  the acquisition of shots of equal length, the count is their number and the accumulator
  their elementwise sum. When the count is 0, the display effect shows a single fresh
  shot, which is not accumulated, only if no acquisition is running and no trace is
  displayed yet; otherwise it changes nothing, and the trace displayed before stays.
\<close>

theorem displayed_trace:
  "(0 < sampleCount st \<and> accumulatedY st \<noteq> [] \<longrightarrow>
      map y (traceData (displayEffect config events activeCut rng st))
        = map (\<lambda>v. v / real (sampleCount st)) (accumulatedY st))
   \<and> ((\<forall>s\<in>set shots. length s = n) \<longrightarrow>
        sampleCount (foldl (\<lambda>s t. acquire t s) (startSimulation st) shots) = length shots
        \<and> (shots \<noteq> [] \<longrightarrow>
             length (accumulatedY (foldl (\<lambda>s t. acquire t s) (startSimulation st) shots)) = n
             \<and> (\<forall>i<n. accumulatedY (foldl (\<lambda>s t. acquire t s) (startSimulation st) shots) ! i
                         = sum_list (map (\<lambda>s. s ! i) shots))))
   \<and> (sampleCount st = 0 \<and> \<not> isSimulating st \<and> traceData st = [] \<longrightarrow>
        map y (traceData (displayEffect config events activeCut rng st))
          = calculateSingleTrace config events activeCut rng
        \<and> accumulatedY (displayEffect config events activeCut rng st) = accumulatedY st
        \<and> sampleCount (displayEffect config events activeCut rng st) = 0)
   \<and> (sampleCount st = 0 \<and> (isSimulating st \<or> traceData st \<noteq> []) \<longrightarrow>
        displayEffect config events activeCut rng st = st)"
proof (intro conjI impI)
  assume "0 < sampleCount st \<and> accumulatedY st \<noteq> []"
  then show "map y (traceData (displayEffect config events activeCut rng st))
        = map (\<lambda>v. v / real (sampleCount st)) (accumulatedY st)"
    using display_avg by blast
next
  assume "\<forall>s\<in>set shots. length s = n"
  show "sampleCount (foldl (\<lambda>s t. acquire t s) (startSimulation st) shots) = length shots"
    by (simp add: acquire_all_count) (simp add: startSimulation_def)
next
  assume a: "\<forall>s\<in>set shots. length s = n" and b: "shots \<noteq> []"
  have e: "accumulatedY (startSimulation st) = []" by (simp add: startSimulation_def)
  from acquire_all_sum[OF e a b]
  show "length (accumulatedY (foldl (\<lambda>s t. acquire t s) (startSimulation st) shots)) = n"
    and "\<forall>i<n. accumulatedY (foldl (\<lambda>s t. acquire t s) (startSimulation st) shots) ! i
                 = sum_list (map (\<lambda>s. s ! i) shots)"
    by blast+
next
  assume h: "sampleCount st = 0 \<and> \<not> isSimulating st \<and> traceData st = []"
  then have h': "sampleCount st = 0" "\<not> isSimulating st" "traceData st = []" by blast+
  from display_initial[OF h']
  show "map y (traceData (displayEffect config events activeCut rng st))
          = calculateSingleTrace config events activeCut rng"
    and "accumulatedY (displayEffect config events activeCut rng st) = accumulatedY st"
    and "sampleCount (displayEffect config events activeCut rng st) = 0"
    by blast+
next
  assume "sampleCount st = 0 \<and> (isSimulating st \<or> traceData st \<noteq> [])"
  then show "displayEffect config events activeCut rng st = st"
    using display_stale by blast
qed

theorem displayed_trace_witness:
  "sampleCount (foldl (\<lambda>s t. acquire t s) (startSimulation initialAppState)
                  [[1, 2], [3, 4]]) = 2
   \<and> accumulatedY (foldl (\<lambda>s t. acquire t s) (startSimulation initialAppState)
                      [[1, 2], [3, 4]]) = [4, 6]
   \<and> map y (traceData (displayEffect defaultConfig defaultEvents None (\<lambda>k. 0)
               (foldl (\<lambda>s t. acquire t s) (startSimulation initialAppState)
                  [[1, 2], [3, 4]]))) = [2, 3]
   \<and> map y (traceData (displayEffect defaultConfig defaultEvents None (\<lambda>k. 0)
               initialAppState))
       = calculateSingleTrace defaultConfig defaultEvents None (\<lambda>k. 0)
   \<and> displayEffect defaultConfig defaultEvents None (\<lambda>k. 0)
         (startSimulation initialAppState) = startSimulation initialAppState"
proof -
  define st2 where
    "st2 = foldl (\<lambda>s t. acquire t s) (startSimulation initialAppState) [[1, 2], [3, 4]]"
  have l: "\<forall>s\<in>set [[1, 2], [3, 4::real]]. length s = 2" by simp
  have c: "sampleCount st2 = 2"
    using displayed_trace[of initialAppState defaultConfig defaultEvents None "\<lambda>k. 0"
            "[[1, 2], [3, 4]]" 2] l
    unfolding st2_def by simp
  have a: "accumulatedY st2 = [4, 6]"
    by (simp add: st2_def acquire_def accumulate_def startSimulation_def
          initialAppState_def upt_rec)
  have d: "map y (traceData (displayEffect defaultConfig defaultEvents None (\<lambda>k. 0) st2))
             = [2, 3]"
    using displayed_trace[of st2 defaultConfig defaultEvents None "\<lambda>k. 0" "[]" 0] c a
    by simp
  have i: "map y (traceData (displayEffect defaultConfig defaultEvents None (\<lambda>k. 0)
               initialAppState))
       = calculateSingleTrace defaultConfig defaultEvents None (\<lambda>k. 0)"
    using displayed_trace[of initialAppState defaultConfig defaultEvents None "\<lambda>k. 0" "[]" 0]
    by (simp add: initialAppState_def)
  have s: "displayEffect defaultConfig defaultEvents None (\<lambda>k. 0)
         (startSimulation initialAppState) = startSimulation initialAppState"
    using displayed_trace[of "startSimulation initialAppState" defaultConfig defaultEvents
            None "\<lambda>k. 0" "[]" 0]
    by (simp add: startSimulation_def)
  show ?thesis using c a d i s unfolding st2_def by simp
qed

end
